theory Spec2Isabelle
  imports Complex_Main "HOL-Library.Char_ord" "HOL-Library.List_Lexorder"
begin

section \<open>Download integrity checker: the verification engine of \<^verbatim>\<open>main.py\<close>\<close>

text \<open>
  The development embeds the verification functions of \<^verbatim>\<open>main.py\<close>
  (\<^verbatim>\<open>digest\<close>, \<^verbatim>\<open>verify_checksum\<close>, \<^verbatim>\<open>push_error\<close>, \<^verbatim>\<open>load_keys\<close>,
  \<^verbatim>\<open>verify_files\<close>) as HOL functions. A Python \<^verbatim>\<open>str\<close> is a \<^typ>\<open>string\<close>; a
  character stands for a code point below 256. Every exception the Python can raise is
  a value \<open>Inl e\<close> of the result type. Printing to the console has no effect on any
  result and is left out.
\<close>

subsection \<open>Python string operations\<close>

text \<open>
  \<^verbatim>\<open>str.isspace\<close> on one character: the code points below 256 that Python counts as
  whitespace are 9 to 13, 28 to 32, 133 and 160.
\<close>

definition is_space :: "char \<Rightarrow> bool" where
  "is_space c =
     (let n = (of_char c :: nat)
      in (9 \<le> n \<and> n \<le> 13) \<or> (28 \<le> n \<and> n \<le> 32) \<or> n = 133 \<or> n = 160)"

text \<open>\<^verbatim>\<open>s.strip()\<close>: leading and trailing whitespace removed.\<close>

definition strip :: "string \<Rightarrow> string" where
  "strip s = rev (dropWhile is_space (rev (dropWhile is_space s)))"

text \<open>
  \<^verbatim>\<open>s.split(sep)\<close> for a separator of one character: the pieces between the
  occurrences of the separator, empty pieces included; the empty string gives one empty
  piece.
\<close>

fun split_on :: "char \<Rightarrow> string \<Rightarrow> string list" where
  "split_on sep [] = [[]]"
| "split_on sep (c # cs) =
     (if c = sep then [] # split_on sep cs
      else (c # hd (split_on sep cs)) # tl (split_on sep cs))"

text \<open>\<^verbatim>\<open>string.hexdigits\<close> and the test \<^verbatim>\<open>all(c in string.hexdigits for c in x)\<close>.\<close>

definition hexdigits :: string where
  "hexdigits = ''0123456789abcdefABCDEF''"

definition all_hex :: "string \<Rightarrow> bool" where
  "all_hex x = list_all (\<lambda>c. c \<in> set hexdigits) x"

text \<open>
  \<^verbatim>\<open>str.lower\<close> on code points below 256: the letters A to Z, and the Latin-1
  capitals 192 to 222 except the multiplication sign 215, move up by 32.
\<close>

definition lower_char :: "char \<Rightarrow> char" where
  "lower_char c =
     (let n = (of_char c :: nat)
      in if (65 \<le> n \<and> n \<le> 90) \<or> (192 \<le> n \<and> n \<le> 222 \<and> n \<noteq> 215)
         then char_of (n + 32) else c)"

definition lower :: "string \<Rightarrow> string" where
  "lower s = map lower_char s"

text \<open>\<^verbatim>\<open>os.path.basename\<close> (POSIX): what follows the last slash.\<close>

definition basename :: "string \<Rightarrow> string" where
  "basename p = rev (takeWhile (\<lambda>c. c \<noteq> CHR ''/'') (rev p))"

text \<open>\<^verbatim>\<open>os.path.join\<close> (POSIX) of two components.\<close>

definition path_join :: "string \<Rightarrow> string \<Rightarrow> string" where
  "path_join a b =
     (if b \<noteq> [] \<and> hd b = CHR ''/'' then b
      else if a = [] \<or> last a = CHR ''/'' then a @ b
      else a @ ''/'' @ b)"

subsection \<open>The environment of a scan pass\<close>

datatype error =
    OSError | ValueError | TypeError | IndexError | UnboundLocalError | AssertionError

text \<open>
  The file system as one pass sees it, and \<^verbatim>\<open>hashlib\<close>. A file operation that raises
  gives \<open>None\<close>; \<open>mkdir_ok p\<close> tells whether \<^verbatim>\<open>os.mkdir(p)\<close> succeeds.
  \<open>hashlib_new m\<close> is \<open>None\<close> when \<^verbatim>\<open>hashlib.new(m)\<close> raises
  for an unsupported name; otherwise it is the function from the bytes fed to the
  digester to its \<^verbatim>\<open>hexdigest()\<close>.
\<close>

record env =
  path_exists :: "string \<Rightarrow> bool"
  isdir :: "string \<Rightarrow> bool"
  file_text :: "string \<Rightarrow> string option"
  file_bytes :: "string \<Rightarrow> string option"
  stat_mtime :: "string \<Rightarrow> real option"
  walk :: "string \<Rightarrow> (string \<times> string list \<times> string list) list"
  mkdir_ok :: "string \<Rightarrow> bool"
  hashlib_new :: "string \<Rightarrow> (string \<Rightarrow> string) option"

subsection \<open>\<^verbatim>\<open>digest\<close> and \<^verbatim>\<open>verify_checksum\<close>\<close>

text \<open>
  \<^verbatim>\<open>digest(filepath, method)\<close>: the digester is created first, then the file is
  opened and fed to it in chunks of \<^verbatim>\<open>CHUNK_SIZE\<close> bytes; updating a digester chunk by
  chunk hashes the concatenation of the chunks, which is the whole file.
\<close>

definition digest :: "env \<Rightarrow> string \<Rightarrow> string \<Rightarrow> error + string" where
  "digest e filepath method =
     (case hashlib_new e method of
        None \<Rightarrow> Inl ValueError
      | Some digester \<Rightarrow>
          (case file_bytes e filepath of
             None \<Rightarrow> Inl OSError
           | Some bytes \<Rightarrow> Inr (digester bytes)))"

text \<open>
  The expected digest read from the text of a sidecar, as \<^verbatim>\<open>verify_checksum\<close>
  computes \<^verbatim>\<open>checksum_on_disk\<close>: the stripped text is split at each space character,
  and the pieces whose stripped form is all hexadecimal are stripped, joined and
  lower-cased.
\<close>

definition checksum_on_disk :: "string \<Rightarrow> string" where
  "checksum_on_disk txt =
     (let checksum_options = split_on CHR '' '' (strip txt)
      in lower (concat (map strip (filter (\<lambda>x. all_hex (strip x)) checksum_options))))"

definition verify_checksum :: "env \<Rightarrow> string \<Rightarrow> string \<Rightarrow> error + string list" where
  "verify_checksum e filepath method =
     (let filename = basename filepath;
          checksum_filepath = filepath @ ''.'' @ method;
          checksum_filename = basename checksum_filepath
      in case file_text e checksum_filepath of
           None \<Rightarrow> Inl OSError
         | Some txt \<Rightarrow>
             (case digest e filepath method of
                Inl err \<Rightarrow> Inl err
              | Inr checksum_calculated \<Rightarrow>
                  Inr (if checksum_on_disk txt \<noteq> checksum_calculated
                       then [''Checksum does not match checksum file '' @ checksum_filename @ ''!'',
                             ''Calculated '' @ method @ '' checksum of '' @ filename @ '' was: ''
                               @ checksum_calculated,
                             ''Checksum file '' @ checksum_filename
                               @ '' said it should have been: '' @ checksum_on_disk txt]
                       else [])))"

subsection \<open>The error dictionary and \<^verbatim>\<open>push_error\<close>\<close>

text \<open>
  The report of a pass maps a file path to its error lines. \<^verbatim>\<open>push_error\<close> takes
  one line or a list of lines (\<^verbatim>\<open>isinstance(errmsg, list)\<close>).
\<close>

type_synonym errors = "string \<rightharpoonup> string list"

datatype errmsg = Msg string | Msgs "string list"

definition push_error :: "errors \<Rightarrow> string \<Rightarrow> errmsg \<Rightarrow> errors" where
  "push_error edict filepath errmsg =
     (let edict1 = (if edict filepath = None then edict(filepath \<mapsto> []) else edict);
          entry = (case edict1 filepath of Some ls \<Rightarrow> ls | None \<Rightarrow> [])
      in case errmsg of
           Msgs ls \<Rightarrow> edict1(filepath \<mapsto> entry @ ls)
         | Msg l \<Rightarrow> edict1(filepath \<mapsto> entry @ [l]))"

subsection \<open>Configuration and the keychain\<close>

text \<open>
  The settings \<^verbatim>\<open>CFG\<close> that the verification reads. \<^verbatim>\<open>strong_checksum_deadline\<close> may
  be absent; \<^verbatim>\<open>CFG.get("strong_checksum_deadline", 0)\<close> then gives 0.
\<close>

record cfg =
  dist_dir :: string
  gpg_homedir :: string
  known_extensions :: "string list"
  strong_checksums :: "string list"
  weak_checksums :: "string list"
  strong_checksum_deadline :: "real option"

definition deadline :: "cfg \<Rightarrow> real" where
  "deadline c = (case strong_checksum_deadline c of None \<Rightarrow> 0 | Some d \<Rightarrow> d)"

text \<open>
  A key as \<^verbatim>\<open>keychain.list_keys()\<close> lists it. \<open>key_expires\<close> is the value of
  \<^verbatim>\<open>int(fp["expires"])\<close>, \<open>None\<close> when the conversion raises (an absent expiry).
\<close>

record key =
  key_fingerprint :: string
  key_expires :: "int option"
  key_uids :: "string list"

text \<open>
  The result of \<^verbatim>\<open>keychain.verify_file\<close>. The fingerprint and the status are \<open>None\<close>
  for Python's \<^verbatim>\<open>None\<close>; \<open>sig_timestamp\<close> is the value of
  \<^verbatim>\<open>int(verified.sig_timestamp)\<close>, \<open>None\<close> when the conversion raises.
\<close>

record verified =
  valid :: bool
  fingerprint :: "string option"
  sig_timestamp :: "int option"
  status :: "string option"

text \<open>How an f-string prints such a value.\<close>

definition py_str :: "string option \<Rightarrow> string" where
  "py_str v = (case v of None \<Rightarrow> ''None'' | Some s \<Rightarrow> s)"

text \<open>
  The keychain object handed to \<^verbatim>\<open>verify_files\<close>: its key list, and its verification
  of a detached signature (the bytes of the signature file, the name of the data file).
\<close>

record keychain =
  list_keys :: "key list"
  verify_file :: "string \<Rightarrow> string \<Rightarrow> verified"

text \<open>The dictionary comprehension of line 127: a later key replaces an earlier one.\<close>

definition known_fingerprints :: "keychain \<Rightarrow> (string \<rightharpoonup> key)" where
  "known_fingerprints kc = fold (\<lambda>k m. m(key_fingerprint k \<mapsto> k)) (list_keys kc) Map.empty"

subsection \<open>\<^verbatim>\<open>verify_files\<close>: the checks on one artifact\<close>

text \<open>Line 131: the extension of a file name.\<close>

definition extension :: "string \<Rightarrow> string" where
  "extension filename =
     (if CHR ''.'' \<in> set filename then last (split_on CHR ''.'' filename) else [])"

text \<open>
  Lines 138 to 145, the loop over the strong methods, with the dictionary and
  \<^verbatim>\<open>valid_checksums_found\<close> as state.
\<close>

fun check_strong :: "env \<Rightarrow> string \<Rightarrow> string list \<Rightarrow> errors \<Rightarrow> nat \<Rightarrow> error + (errors \<times> nat)" where
  "check_strong e filepath [] errs valid_checksums_found = Inr (errs, valid_checksums_found)"
| "check_strong e filepath (method # methods) errs valid_checksums_found =
     (let chkfile = filepath @ ''.'' @ method
      in if path_exists e chkfile
         then (case verify_checksum e filepath method of
                 Inl err \<Rightarrow> Inl err
               | Inr file_errors \<Rightarrow>
                   if file_errors \<noteq> []
                   then check_strong e filepath methods
                          (push_error errs filepath (Msgs file_errors)) valid_checksums_found
                   else check_strong e filepath methods errs (valid_checksums_found + 1))
         else check_strong e filepath methods errs valid_checksums_found)"

text \<open>
  The loop of lines 150 and 151 only assigns \<^verbatim>\<open>method\<close> and \<^verbatim>\<open>chkfile\<close>; the test of
  line 152 stands after the loop. Python keeps a loop variable bound after its loop, so
  line 152 reads the binding of the last weak method, or, with an empty weak list, of the
  last strong method (the strong loop ran for the same artifact just before). With both
  lists empty the variables were never bound and line 152 raises.
\<close>

definition last_method :: "cfg \<Rightarrow> string option" where
  "last_method c =
     fold (\<lambda>method bound. Some method) (strong_checksums c @ weak_checksums c) None"

definition no_checksum_msg :: "string \<Rightarrow> string" where
  "no_checksum_msg filename =
     ''No valid checksum files (.md5, .sha1, .sha256, .sha512) found for '' @ filename"

definition no_strong_msg :: "string \<Rightarrow> string" where
  "no_strong_msg filename =
     ''No valid checksum files (.sha256, .sha512) found for '' @ filename"

text \<open>Lines 148 to 164. \<^verbatim>\<open>os.stat\<close> is only reached when no valid checksum was found.\<close>

definition check_weak ::
  "cfg \<Rightarrow> env \<Rightarrow> string \<Rightarrow> string \<Rightarrow> errors \<Rightarrow> nat \<Rightarrow> error + (errors \<times> nat)" where
  "check_weak c e filepath filename errs valid_checksums_found =
     (if valid_checksums_found = 0
      then (case stat_mtime e filepath of
              None \<Rightarrow> Inl OSError
            | Some st_mtime \<Rightarrow>
                if st_mtime \<le> deadline c
                then (case last_method c of
                        None \<Rightarrow> Inl UnboundLocalError
                      | Some method \<Rightarrow>
                          (let chkfile = filepath @ ''.'' @ method
                           in case (if path_exists e chkfile
                                    then (case verify_checksum e filepath method of
                                            Inl err \<Rightarrow> Inl err
                                          | Inr file_errors \<Rightarrow>
                                              if file_errors \<noteq> []
                                              then Inr (push_error errs filepath (Msgs file_errors),
                                                        valid_checksums_found)
                                              else Inr (errs, valid_checksums_found + 1))
                                    else Inr (errs, valid_checksums_found)) of
                                Inl err \<Rightarrow> Inl err
                              | Inr (errs1, found) \<Rightarrow>
                                  if found = 0
                                  then Inr (push_error errs1 filepath
                                              (Msg (no_checksum_msg filename)), found)
                                  else Inr (errs1, found)))
                else Inr (push_error errs filepath (Msg (no_strong_msg filename)),
                          valid_checksums_found))
      else Inr (errs, valid_checksums_found))"

text \<open>Lines 136 to 164: the checksum policy for one artifact, from a count of zero.\<close>

definition check_checksums ::
  "cfg \<Rightarrow> env \<Rightarrow> string \<Rightarrow> string \<Rightarrow> errors \<Rightarrow> error + (errors \<times> nat)" where
  "check_checksums c e filepath filename errs =
     (case check_strong e filepath (strong_checksums c) errs 0 of
        Inl err \<Rightarrow> Inl err
      | Inr (errs1, found) \<Rightarrow> check_weak c e filepath filename errs1 found)"

text \<open>
  Lines 167 to 182: the detached signature. \<open>known\<close> is the dictionary
  \<^verbatim>\<open>known_fingerprints\<close> of line 127. \<^verbatim>\<open>None\<close> is never one of its keys.
\<close>

definition fingerprint_msg :: "string \<Rightarrow> string option \<Rightarrow> string" where
  "fingerprint_msg filename fpr =
     ''The signature file '' @ filename
       @ '' was signed with a fingerprint not found in the project'' @ [CHR 0x27]
       @ ''s KEYS file: '' @ py_str fpr"

definition expired_msg :: "string \<Rightarrow> string \<Rightarrow> string option \<Rightarrow> string" where
  "expired_msg filename fp_owner fpr =
     ''Detached signature file '' @ filename @ ''.asc was signed by '' @ fp_owner
       @ '' ('' @ py_str fpr @ '') but the key has expired!''"

definition status_msg :: "string \<Rightarrow> string option \<Rightarrow> string" where
  "status_msg filename st =
     ''Detached signature file '' @ filename @ ''.asc could not be used to verify ''
       @ filename @ '': '' @ py_str st"

definition check_signature ::
  "env \<Rightarrow> keychain \<Rightarrow> (string \<rightharpoonup> key) \<Rightarrow> string \<Rightarrow> string \<Rightarrow> errors \<Rightarrow> error + errors" where
  "check_signature e kc known filepath filename errs =
     (let asc_filepath = filepath @ ''.asc''
      in if path_exists e asc_filepath
         then (case file_bytes e asc_filepath of
                 None \<Rightarrow> Inl OSError
               | Some asc \<Rightarrow>
                   (let verified = verify_file kc asc filepath
                    in if \<not> valid verified
                       then (case (case fingerprint verified of
                                     None \<Rightarrow> None
                                   | Some f \<Rightarrow> known f) of
                               None \<Rightarrow>
                                 Inr (push_error errs filepath
                                        (Msg (fingerprint_msg filename (fingerprint verified))))
                             | Some fp \<Rightarrow>
                                 (case key_expires fp of
                                    None \<Rightarrow> Inl ValueError
                                  | Some fp_expires \<Rightarrow>
                                      (case sig_timestamp verified of
                                         None \<Rightarrow> Inl TypeError
                                       | Some stamp \<Rightarrow>
                                           if fp_expires < stamp
                                           then (case key_uids fp of
                                                   [] \<Rightarrow> Inl IndexError
                                                 | fp_owner # others \<Rightarrow>
                                                     Inr (push_error errs filepath
                                                            (Msg (expired_msg filename fp_owner
                                                                    (fingerprint verified)))))
                                           else if status verified \<noteq> Some ''signature valid''
                                           then Inr (push_error errs filepath
                                                       (Msg (status_msg filename (status verified))))
                                           else Inr errs)))
                       else Inr errs))
         else Inr errs)"

text \<open>Lines 133 to 182: everything done for one selected file of a directory.\<close>

definition verify_artifact ::
  "cfg \<Rightarrow> env \<Rightarrow> keychain \<Rightarrow> (string \<rightharpoonup> key) \<Rightarrow> string \<Rightarrow> string \<Rightarrow> errors \<Rightarrow> error + errors" where
  "verify_artifact c e kc known root_dir filename errs =
     (let filepath = path_join root_dir filename
      in case check_checksums c e filepath filename errs of
           Inl err \<Rightarrow> Inl err
         | Inr (errs1, found) \<Rightarrow> check_signature e kc known filepath filename errs1)"

subsection \<open>\<^verbatim>\<open>verify_files\<close>: the walk over the project's tree\<close>

text \<open>Line 132: the test that selects a file name for verification.\<close>

definition selected :: "cfg \<Rightarrow> string \<Rightarrow> bool" where
  "selected c filename = (extension filename \<in> set (known_extensions c))"

text \<open>Lines 130 to 132: the loop over the (sorted) file names of one directory.\<close>

fun verify_names ::
  "cfg \<Rightarrow> env \<Rightarrow> keychain \<Rightarrow> (string \<rightharpoonup> key) \<Rightarrow> string \<Rightarrow> string list \<Rightarrow> errors \<Rightarrow> error + errors" where
  "verify_names c e kc known root_dir [] errs = Inr errs"
| "verify_names c e kc known root_dir (filename # filenames) errs =
     (if selected c filename
      then (case verify_artifact c e kc known root_dir filename errs of
              Inl err \<Rightarrow> Inl err
            | Inr errs1 \<Rightarrow> verify_names c e kc known root_dir filenames errs1)
      else verify_names c e kc known root_dir filenames errs)"

text \<open>Line 129: the loop over the directories that \<^verbatim>\<open>os.walk\<close> yields.\<close>

fun verify_walk ::
  "cfg \<Rightarrow> env \<Rightarrow> keychain \<Rightarrow> (string \<rightharpoonup> key) \<Rightarrow> (string \<times> string list \<times> string list) list
     \<Rightarrow> errors \<Rightarrow> error + errors" where
  "verify_walk c e kc known [] errs = Inr errs"
| "verify_walk c e kc known ((root_dir, dirs, files) # rest) errs =
     (case verify_names c e kc known root_dir (sort files) errs of
        Inl err \<Rightarrow> Inl err
      | Inr errs1 \<Rightarrow> verify_walk c e kc known rest errs1)"

definition verify_files :: "cfg \<Rightarrow> env \<Rightarrow> keychain \<Rightarrow> string \<Rightarrow> error + errors" where
  "verify_files c e kc project =
     (let path = path_join (dist_dir c) project;
          known = known_fingerprints kc
      in verify_walk c e kc known (walk e path) Map.empty)"

subsection \<open>\<^verbatim>\<open>load_keys\<close> and the GPG home directories\<close>

text \<open>
  The GPG home directory of a project is the one place the program writes to, through
  \<^verbatim>\<open>os.mkdir\<close> and \<^verbatim>\<open>keychain.import_keys\<close>. The existing home directories are a map
  from the directory's path to its content, and the content of a home directory is the
  list of the key blocks imported into it so far, oldest first.

  The \<^verbatim>\<open>gnupg\<close> library is not part of the repository and is a parameter: what
  \<^verbatim>\<open>list_keys\<close> and \<^verbatim>\<open>verify_file\<close> answer on a home directory with a given content.
\<close>

type_synonym gpg_homes = "string \<rightharpoonup> string list"

record gnupg =
  gpg_list_keys :: "string list \<Rightarrow> key list"
  gpg_verify_file :: "string list \<Rightarrow> string \<Rightarrow> string \<Rightarrow> verified"

definition keychain_of :: "gnupg \<Rightarrow> string list \<Rightarrow> keychain" where
  "keychain_of g ring = \<lparr>list_keys = gpg_list_keys g ring, verify_file = gpg_verify_file g ring\<rparr>"

text \<open>Lines 77 to 82: the files of one directory, in the order \<^verbatim>\<open>os.walk\<close> lists them.\<close>

fun import_names :: "env \<Rightarrow> string \<Rightarrow> string list \<Rightarrow> string list \<Rightarrow> error + string list" where
  "import_names e root_dir [] ring = Inr ring"
| "import_names e root_dir (filename # filenames) ring =
     (let filepath = path_join root_dir filename
      in if filename \<in> set [''KEYS'', ''KEYS.txt'']
         then (case file_bytes e filepath of
                 None \<Rightarrow> Inl OSError
               | Some block \<Rightarrow> import_names e root_dir filenames (ring @ [block]))
         else import_names e root_dir filenames ring)"

fun import_walk ::
  "env \<Rightarrow> (string \<times> string list \<times> string list) list \<Rightarrow> string list \<Rightarrow> error + string list" where
  "import_walk e [] ring = Inr ring"
| "import_walk e ((root_dir, dirs, files) # rest) ring =
     (case import_names e root_dir files ring of
        Inl err \<Rightarrow> Inl err
      | Inr ring1 \<Rightarrow> import_walk e rest ring1)"

text \<open>
  \<^verbatim>\<open>load_keys(project)\<close>, lines 68 to 83. The home directory is created only when it
  does not exist; the keychain object is opened on the directory as it is.
\<close>

definition load_keys ::
  "cfg \<Rightarrow> env \<Rightarrow> gnupg \<Rightarrow> gpg_homes \<Rightarrow> string \<Rightarrow> error + (gpg_homes \<times> keychain)" where
  "load_keys c e g homes project =
     (let project_dir = path_join (dist_dir c) project;
          project_gpg_dir = path_join (gpg_homedir c) project
      in if \<not> (project \<noteq> [] \<and> isdir e project_dir) then Inl AssertionError
         else (case (if homes project_gpg_dir = None
                     then (if mkdir_ok e project_gpg_dir
                           then Inr (homes(project_gpg_dir \<mapsto> []))
                           else Inl OSError)
                     else Inr homes) of
                 Inl err \<Rightarrow> Inl err
               | Inr homes1 \<Rightarrow>
                   (case import_walk e (walk e project_dir)
                           (case homes1 project_gpg_dir of None \<Rightarrow> [] | Some ring \<Rightarrow> ring) of
                      Inl err \<Rightarrow> Inl err
                    | Inr ring1 \<Rightarrow>
                        Inr (homes1(project_gpg_dir \<mapsto> ring1), keychain_of g ring1))))"

text \<open>
  Lines 204 to 210 of \<^verbatim>\<open>main\<close>: one project in one pass. The report goes to
  \<^verbatim>\<open>alert_project\<close>, which is outside the verification and left out. The next pass
  starts from the home directories this one leaves.
\<close>

definition scan_project ::
  "cfg \<Rightarrow> env \<Rightarrow> gnupg \<Rightarrow> gpg_homes \<Rightarrow> string \<Rightarrow> error + (gpg_homes \<times> errors)" where
  "scan_project c e g homes project =
     (case load_keys c e g homes project of
        Inl err \<Rightarrow> Inl err
      | Inr (homes1, keychain) \<Rightarrow>
          (case verify_files c e keychain project of
             Inl err \<Rightarrow> Inl err
           | Inr errs \<Rightarrow> Inr (homes1, errs)))"

subsection \<open>Notions used to state the properties\<close>

text \<open>The error lines a dictionary holds for a path; none when the path has no entry.\<close>

definition lines_of :: "errors \<Rightarrow> string \<Rightarrow> string list" where
  "lines_of errs p = (case errs p of None \<Rightarrow> [] | Some ls \<Rightarrow> ls)"

text \<open>What follows the last occurrence of a character in a string.\<close>

definition after_last :: "char \<Rightarrow> string \<Rightarrow> string" where
  "after_last sep s = rev (takeWhile (\<lambda>c. c \<noteq> sep) (rev s))"


text \<open>
  The specification's reading of a sidecar: the text is split on whitespace
  (\<^verbatim>\<open>str.split()\<close> without a separator: runs of whitespace separate the tokens, and
  there are no empty tokens), the tokens that are all hexadecimal are kept, joined and
  lower-cased.
\<close>

fun split_ws :: "string \<Rightarrow> string list" where
  "split_ws [] = []"
| "split_ws (c # cs) =
     (if is_space c then split_ws cs
      else if cs = [] \<or> is_space (hd cs) then [c] # split_ws cs
      else (c # hd (split_ws cs)) # tl (split_ws cs))"

definition spec_expected_digest :: "string \<Rightarrow> string" where
  "spec_expected_digest txt = lower (concat (filter all_hex (split_ws txt)))"

text \<open>
  A sidecar text in which any two neighbouring tokens have a space character somewhere
  between them: no piece between two spaces holds whitespace inside, once the whitespace
  at its ends is taken off.
\<close>

definition space_separated :: "string \<Rightarrow> bool" where
  "space_separated txt =
     list_all (\<lambda>piece. list_all (\<lambda>c. \<not> is_space c) (strip piece))
       (split_on CHR '' '' (strip txt))"

text \<open>The paths of the files named \<^verbatim>\<open>KEYS\<close> or \<^verbatim>\<open>KEYS.txt\<close> in a walk, in walk order.\<close>

definition keys_paths :: "(string \<times> string list \<times> string list) list \<Rightarrow> string list" where
  "keys_paths entries =
     concat (map (\<lambda>(root_dir, dirs, files).
                    map (path_join root_dir)
                      (filter (\<lambda>filename. filename \<in> set [''KEYS'', ''KEYS.txt'']) files))
               entries)"

subsection \<open>A small project tree for concrete runs\<close>

text \<open>
  The settings of the examples: the strong and weak lists the program is deployed with,
  and a deadline that each example chooses.
\<close>

definition ex_cfg :: "real option \<Rightarrow> cfg" where
  "ex_cfg dl =
     \<lparr>dist_dir = ''dist'', gpg_homedir = ''gpg'', known_extensions = [''gz'', ''zip''],
      strong_checksums = [''sha256'', ''sha512''], weak_checksums = [''md5'', ''sha1''],
      strong_checksum_deadline = dl\<rparr>"

text \<open>A stand-in for the four digests: it tells the release bytes from any others.\<close>

definition ex_hexdigest :: "string \<Rightarrow> string" where
  "ex_hexdigest bytes = (if bytes = ''release'' then ''0a1b2c'' else ''ffffff'')"

text \<open>
  A project \<^verbatim>\<open>proj\<close> whose files, given with their paths and contents, lie in the one
  directory \<^verbatim>\<open>dist/proj\<close> and all have the same modification time.
\<close>

definition ex_env :: "(string \<times> string) list \<Rightarrow> real \<Rightarrow> env" where
  "ex_env fs mtime =
     \<lparr>path_exists = (\<lambda>p. map_of fs p \<noteq> None),
      isdir = (\<lambda>p. p = ''dist/proj''),
      file_text = map_of fs,
      file_bytes = map_of fs,
      stat_mtime = (\<lambda>p. if map_of fs p = None then None else Some mtime),
      walk = (\<lambda>p. if p = ''dist/proj''
                   then [(''dist/proj'', [], map (\<lambda>(p, content). basename p) fs)] else []),
      mkdir_ok = (\<lambda>p. True),
      hashlib_new = (\<lambda>method. if method \<in> set [''md5'', ''sha1'', ''sha256'', ''sha512'']
                               then Some ex_hexdigest else None)\<rparr>"

text \<open>A keychain that holds the given keys and answers every verification the same way.\<close>

definition ex_keychain :: "key list \<Rightarrow> verified \<Rightarrow> keychain" where
  "ex_keychain ks v = \<lparr>list_keys = ks, verify_file = (\<lambda>asc data_filename. v)\<rparr>"

definition ex_key :: "int option \<Rightarrow> key" where
  "ex_key expiry =
     \<lparr>key_fingerprint = ''AB12'', key_expires = expiry, key_uids = [''Releaser <rm@example.org>'']\<rparr>"

definition ex_verified :: "bool \<Rightarrow> string option \<Rightarrow> int option \<Rightarrow> verified" where
  "ex_verified ok fpr stamp =
     \<lparr>valid = ok, fingerprint = fpr, sig_timestamp = stamp,
      status = Some (if ok then ''signature valid'' else ''signing key has expired'')\<rparr>"

text \<open>
  A stand-in for the \<^verbatim>\<open>gnupg\<close> library in which a key block is the fingerprint of the
  one key it holds, and a home directory lists the keys of all blocks imported into it.
\<close>

definition ex_gnupg :: gnupg where
  "ex_gnupg =
     \<lparr>gpg_list_keys =
        map (\<lambda>block. \<lparr>key_fingerprint = block, key_expires = None, key_uids = [block]\<rparr>),
      gpg_verify_file = (\<lambda>ring asc data_filename. ex_verified True None None)\<rparr>"

text \<open>The release with a good strong checksum and a detached signature.\<close>

definition ex_signed_env :: env where
  "ex_signed_env =
     ex_env [(''dist/proj/a.zip'', ''release''), (''dist/proj/a.zip.sha256'', ''0a1b2c  a.zip''),
             (''dist/proj/a.zip.asc'', ''signature'')] 500"

text \<open>
  A release with one weak sidecar, of the given method, that holds the right digest, and
  no other sidecar.
\<close>

definition ex_legacy_env :: "string \<Rightarrow> real \<Rightarrow> env" where
  "ex_legacy_env method mtime =
     ex_env [(''dist/proj/a.zip'', ''release''),
             (''dist/proj/a.zip.'' @ method, ''0a1b2c  a.zip'')] mtime"

text \<open>
  The release with a \<^verbatim>\<open>.sha256\<close> sidecar whose two tokens, the right digest and the file
  name, are separated by the given text.
\<close>

definition ex_sidecar_env :: "string \<Rightarrow> env" where
  "ex_sidecar_env separator =
     ex_env [(''dist/proj/a.zip'', ''release''),
             (''dist/proj/a.zip.sha256'', ''0A1B2C'' @ separator @ ''a.zip'')] 500"

text \<open>The tree of the project with a \<^verbatim>\<open>KEYS\<close> file, and the same tree without it.\<close>

definition ex_keys_env :: env where
  "ex_keys_env = ex_env [(''dist/proj/KEYS'', ''AB12''), (''dist/proj/a.zip'', ''release'')] 500"

definition ex_no_keys_env :: env where
  "ex_no_keys_env = ex_env [(''dist/proj/a.zip'', ''release'')] 500"

section \<open>Properties\<close>

subsection \<open>Basic facts\<close>

lemma push_error_Msg: "push_error errs p (Msg l) = errs(p \<mapsto> lines_of errs p @ [l])"
  by (auto simp: push_error_def lines_of_def fun_eq_iff split: option.splits)


lemma split_on_not_Nil: "split_on sep s \<noteq> []"
  by (induction s) auto

lemma split_on_no_sep: "sep \<notin> set s \<Longrightarrow> split_on sep s = [s]"
  by (induction s) auto

lemma split_on_tl_Nil: "tl (split_on sep s) = [] \<longleftrightarrow> sep \<notin> set s"
  by (induction s) (auto simp: split_on_not_Nil)

lemma after_last_Cons:
  "after_last sep (c # cs) =
     (if sep \<in> set cs then after_last sep cs else if c = sep then cs else c # cs)"
  by (auto simp: after_last_def takeWhile_append)

lemma last_split_on: "last (split_on sep s) = after_last sep s"
proof (induction s)
  case Nil
  show ?case by (simp add: after_last_def)
next
  case (Cons c cs)
  show ?case
  proof (cases "sep \<in> set cs")
    case True
    then have "tl (split_on sep cs) \<noteq> []" by (simp add: split_on_tl_Nil)
    with True Cons show ?thesis
      by (simp add: after_last_Cons split_on_not_Nil last_tl)
  next
    case False
    then show ?thesis by (simp add: after_last_Cons split_on_no_sep)
  qed
qed

lemma after_last_no_sep: "sep \<notin> set (after_last sep s)"
  unfolding after_last_def using set_takeWhileD by fastforce

lemma extension_no_dot: "CHR ''.'' \<notin> set (extension filename)"
  by (simp add: extension_def last_split_on after_last_no_sep)

subsection \<open>The mismatch report of \<^verbatim>\<open>verify_checksum\<close>\<close>

text \<open>
  Claim C5. When the sidecar can be read and the digest computed, and the expected
  digest read from the sidecar differs from the computed one (the expected digest may be
  empty, no piece of the sidecar being hexadecimal), \<^verbatim>\<open>verify_checksum\<close> returns
  exactly three lines in this order: the mismatch notice, a line that ends with the
  computed digest, and a line that ends with the expected digest.
\<close>

theorem verify_checksum_mismatch_report:
  assumes "file_text e (filepath @ ''.'' @ method) = Some txt"
    and "digest e filepath method = Inr calculated"
    and "checksum_on_disk txt \<noteq> calculated"
  shows "verify_checksum e filepath method =
           Inr [''Checksum does not match checksum file ''
                  @ basename (filepath @ ''.'' @ method) @ ''!'',
                ''Calculated '' @ method @ '' checksum of '' @ basename filepath @ '' was: ''
                  @ calculated,
                ''Checksum file '' @ basename (filepath @ ''.'' @ method)
                  @ '' said it should have been: '' @ checksum_on_disk txt]"
  using assms by (simp add: verify_checksum_def Let_def)

theorem verify_checksum_mismatch_report_witness:
  "file_text (ex_env [(''dist/proj/a.zip'', ''release''), (''dist/proj/a.zip.sha256'', ''a.zip'')] 500)
       (''dist/proj/a.zip'' @ ''.'' @ ''sha256'') = Some ''a.zip''
   \<and> digest (ex_env [(''dist/proj/a.zip'', ''release''), (''dist/proj/a.zip.sha256'', ''a.zip'')] 500)
       ''dist/proj/a.zip'' ''sha256'' = Inr ''0a1b2c''
   \<and> checksum_on_disk ''a.zip'' = []
   \<and> verify_checksum (ex_env [(''dist/proj/a.zip'', ''release''), (''dist/proj/a.zip.sha256'', ''a.zip'')] 500)
       ''dist/proj/a.zip'' ''sha256'' =
         Inr [''Checksum does not match checksum file a.zip.sha256!'',
              ''Calculated sha256 checksum of a.zip was: 0a1b2c'',
              ''Checksum file a.zip.sha256 said it should have been: '']"
proof -
  let ?e = "ex_env [(''dist/proj/a.zip'', ''release''), (''dist/proj/a.zip.sha256'', ''a.zip'')] 500"
  have t: "file_text ?e (''dist/proj/a.zip'' @ ''.'' @ ''sha256'') = Some ''a.zip''"
    by (simp add: ex_env_def)
  have d: "digest ?e ''dist/proj/a.zip'' ''sha256'' = Inr ''0a1b2c''"
    by (simp add: ex_env_def digest_def ex_hexdigest_def)
  have k: "checksum_on_disk ''a.zip'' = []"
    by (simp add: checksum_on_disk_def strip_def is_space_def all_hex_def hexdigits_def lower_def)
  have n: "checksum_on_disk ''a.zip'' \<noteq> ''0a1b2c''"
    by (simp add: k)
  show ?thesis
    using verify_checksum_mismatch_report [OF t d n] t d k by (simp add: basename_def)
qed

subsection \<open>The detached signature\<close>

text \<open>
  Claim C7. For an artifact whose \<^verbatim>\<open>.asc\<close> sidecar exists and can be opened and whose
  verification reports the signature invalid: when the reported fingerprint is not a key
  of the fingerprint map, exactly one line is appended under the artifact's path, the
  one saying that the fingerprint is not in the project's KEYS file; when the
  fingerprint is in the map and the expiry of its key is earlier than the signing
  timestamp, exactly one line is appended, the expiry line, which names the first user
  identity of the key and the fingerprint.
\<close>

theorem invalid_signature_errors:
  assumes "path_exists e (filepath @ ''.asc'')"
    and "file_bytes e (filepath @ ''.asc'') = Some asc"
    and "\<not> valid (verify_file kc asc filepath)"
  shows "((case fingerprint (verify_file kc asc filepath) of None \<Rightarrow> None | Some f \<Rightarrow> known f) = None
           \<longrightarrow> check_signature e kc known filepath filename errs =
                 Inr (errs(filepath \<mapsto> lines_of errs filepath @
                   [''The signature file '' @ filename
                      @ '' was signed with a fingerprint not found in the project''
                      @ [CHR 0x27] @ ''s KEYS file: ''
                      @ py_str (fingerprint (verify_file kc asc filepath))])))
       \<and> (\<forall>f fp fp_expires stamp fp_owner others.
            fingerprint (verify_file kc asc filepath) = Some f \<and> known f = Some fp
            \<and> key_expires fp = Some fp_expires
            \<and> sig_timestamp (verify_file kc asc filepath) = Some stamp
            \<and> fp_expires < stamp \<and> key_uids fp = fp_owner # others
           \<longrightarrow> check_signature e kc known filepath filename errs =
                 Inr (errs(filepath \<mapsto> lines_of errs filepath @
                   [''Detached signature file '' @ filename @ ''.asc was signed by '' @ fp_owner
                      @ '' ('' @ f @ '') but the key has expired!''])))"
  using assms
  by (simp add: check_signature_def push_error_Msg fingerprint_msg_def expired_msg_def
      py_str_def Let_def)

theorem invalid_signature_errors_witness:
  "path_exists ex_signed_env (''dist/proj/a.zip'' @ ''.asc'')
   \<and> file_bytes ex_signed_env (''dist/proj/a.zip'' @ ''.asc'') = Some ''signature''
   \<and> \<not> valid (ex_verified False (Some ''FFFF'') (Some 2000))
   \<and> known_fingerprints (ex_keychain [ex_key (Some 1000)]
                           (ex_verified False (Some ''FFFF'') (Some 2000))) ''FFFF'' = None
   \<and> check_signature ex_signed_env
         (ex_keychain [ex_key (Some 1000)] (ex_verified False (Some ''FFFF'') (Some 2000)))
         (known_fingerprints (ex_keychain [ex_key (Some 1000)]
                                (ex_verified False (Some ''FFFF'') (Some 2000))))
         ''dist/proj/a.zip'' ''a.zip'' Map.empty =
       Inr [''dist/proj/a.zip'' \<mapsto>
              [''The signature file a.zip was signed with a fingerprint not found in the project''
                 @ [CHR 0x27] @ ''s KEYS file: FFFF'']]
   \<and> known_fingerprints (ex_keychain [ex_key (Some 1000)]
                           (ex_verified False (Some ''AB12'') (Some 2000))) ''AB12''
       = Some (ex_key (Some 1000))
   \<and> (1000 :: int) < 2000
   \<and> check_signature ex_signed_env
         (ex_keychain [ex_key (Some 1000)] (ex_verified False (Some ''AB12'') (Some 2000)))
         (known_fingerprints (ex_keychain [ex_key (Some 1000)]
                                (ex_verified False (Some ''AB12'') (Some 2000))))
         ''dist/proj/a.zip'' ''a.zip'' Map.empty =
       Inr [''dist/proj/a.zip'' \<mapsto>
              [''Detached signature file a.zip.asc was signed by Releaser <rm@example.org> (AB12) but the key has expired!'']]"
proof -
  let ?k1 = "ex_keychain [ex_key (Some 1000)] (ex_verified False (Some ''FFFF'') (Some 2000))"
  let ?k2 = "ex_keychain [ex_key (Some 1000)] (ex_verified False (Some ''AB12'') (Some 2000))"
  have x: "path_exists ex_signed_env (''dist/proj/a.zip'' @ ''.asc'')"
    by (simp add: ex_signed_env_def ex_env_def)
  have b: "file_bytes ex_signed_env (''dist/proj/a.zip'' @ ''.asc'') = Some ''signature''"
    by (simp add: ex_signed_env_def ex_env_def)
  have v1: "\<not> valid (verify_file ?k1 ''signature'' ''dist/proj/a.zip'')"
    by (simp add: ex_keychain_def ex_verified_def)
  have v2: "\<not> valid (verify_file ?k2 ''signature'' ''dist/proj/a.zip'')"
    by (simp add: ex_keychain_def ex_verified_def)
  have n1: "known_fingerprints ?k1 ''FFFF'' = None"
    by (simp add: known_fingerprints_def ex_keychain_def ex_key_def)
  have n2: "known_fingerprints ?k2 ''AB12'' = Some (ex_key (Some 1000))"
    by (simp add: known_fingerprints_def ex_keychain_def ex_key_def)
  have r1: "check_signature ex_signed_env ?k1 (known_fingerprints ?k1)
              ''dist/proj/a.zip'' ''a.zip'' Map.empty =
            Inr [''dist/proj/a.zip'' \<mapsto>
              [''The signature file a.zip was signed with a fingerprint not found in the project''
                 @ [CHR 0x27] @ ''s KEYS file: FFFF'']]"
    using invalid_signature_errors [OF x b v1, of "known_fingerprints ?k1" "''a.zip''" Map.empty] n1
    by (simp add: ex_keychain_def ex_verified_def py_str_def lines_of_def)
  have r2: "check_signature ex_signed_env ?k2 (known_fingerprints ?k2)
              ''dist/proj/a.zip'' ''a.zip'' Map.empty =
            Inr [''dist/proj/a.zip'' \<mapsto>
              [''Detached signature file a.zip.asc was signed by Releaser <rm@example.org> (AB12) but the key has expired!'']]"
    using invalid_signature_errors [OF x b v2, of "known_fingerprints ?k2" "''a.zip''" Map.empty] n2
    by (simp add: ex_keychain_def ex_verified_def ex_key_def lines_of_def)
  show ?thesis
    using x b n1 n2 r1 r2 by (simp add: ex_verified_def)
qed

text \<open>
  Claim C8. For an artifact whose \<^verbatim>\<open>.asc\<close> sidecar does not exist the signature check
  does nothing: the dictionary is returned as it was, so what the pass records for the
  artifact is what the checksum policy recorded.
\<close>

theorem missing_asc_is_skipped:
  assumes "\<not> path_exists e (filepath @ ''.asc'')"
  shows "check_signature e kc known filepath filename errs = Inr errs
       \<and> (filepath = path_join root_dir filename \<longrightarrow>
            verify_artifact c e kc known root_dir filename errs =
              (case check_checksums c e filepath filename errs of
                 Inl err \<Rightarrow> Inl err
               | Inr (errs1, found) \<Rightarrow> Inr errs1))"
  using assms
  by (auto simp: check_signature_def verify_artifact_def split: sum.splits)

theorem missing_asc_is_skipped_witness:
  "\<not> path_exists (ex_env [(''dist/proj/a.zip'', ''release'')] 500) (''dist/proj/a.zip'' @ ''.asc'')
   \<and> check_signature (ex_env [(''dist/proj/a.zip'', ''release'')] 500)
         (ex_keychain [] (ex_verified False None None)) Map.empty
         ''dist/proj/a.zip'' ''a.zip'' Map.empty = Inr Map.empty
   \<and> ''dist/proj/a.zip'' = path_join ''dist/proj'' ''a.zip''
   \<and> verify_artifact (ex_cfg None) (ex_env [(''dist/proj/a.zip'', ''release'')] 500)
         (ex_keychain [] (ex_verified False None None)) Map.empty ''dist/proj'' ''a.zip'' Map.empty =
       Inr [''dist/proj/a.zip'' \<mapsto> [no_strong_msg ''a.zip'']]"
proof -
  have c: "check_checksums (ex_cfg None) (ex_env [(''dist/proj/a.zip'', ''release'')] 500)
             ''dist/proj/a.zip'' ''a.zip'' Map.empty =
           Inr ([''dist/proj/a.zip'' \<mapsto> [no_strong_msg ''a.zip'']], 0)"
    by (simp add: check_checksums_def check_weak_def ex_cfg_def ex_env_def deadline_def
        push_error_def)
  have j: "''dist/proj/a.zip'' = path_join ''dist/proj'' ''a.zip''"
    by (simp add: path_join_def)
  have x: "\<not> path_exists (ex_env [(''dist/proj/a.zip'', ''release'')] 500)
             (''dist/proj/a.zip'' @ ''.asc'')"
    by (simp add: ex_env_def)
  show ?thesis
    using x j c
      missing_asc_is_skipped [OF x, of "ex_keychain [] (ex_verified False None None)" Map.empty
        "''a.zip''" Map.empty "''dist/proj''" "ex_cfg None"]
    by simp
qed

subsection \<open>Selection of the files to verify\<close>

text \<open>
  Claim C10. A file name is selected exactly when what follows its last dot is an entry
  of the extension list; a name without a dot has the empty extension and is selected
  only if the empty string is an entry; the extension never holds a dot, so an entry
  with a dot in it, such as \<^verbatim>\<open>tar.gz\<close>, is the extension of no file name. A name that
  is not selected is passed over by the loop.
\<close>

theorem selection_by_extension:
  "(selected c filename \<longleftrightarrow>
      (if CHR ''.'' \<in> set filename then after_last CHR ''.'' filename else [])
        \<in> set (known_extensions c))
   \<and> (CHR ''.'' \<notin> set filename \<longrightarrow>
        extension filename = [] \<and> (selected c filename \<longleftrightarrow> [] \<in> set (known_extensions c)))
   \<and> (\<forall>entry. CHR ''.'' \<in> set entry \<longrightarrow> extension filename \<noteq> entry)
   \<and> (\<not> selected c filename \<longrightarrow>
        verify_names c e kc known root_dir (filename # filenames) errs =
        verify_names c e kc known root_dir filenames errs)"
proof -
  have "\<forall>entry. CHR ''.'' \<in> set entry \<longrightarrow> extension filename \<noteq> entry"
    using extension_no_dot [of filename] by auto
  then show ?thesis
    by (simp add: selected_def extension_def last_split_on)
qed

theorem selection_by_extension_witness:
  "CHR ''.'' \<notin> set ''README'' \<and> CHR ''.'' \<in> set ''tar.gz''
   \<and> extension ''README'' = []
   \<and> \<not> selected (ex_cfg None) ''README''
   \<and> extension ''a.tar.gz'' = ''gz'' \<and> extension ''a.tar.gz'' \<noteq> ''tar.gz''
   \<and> selected (ex_cfg None) ''a.tar.gz''
   \<and> \<not> selected (ex_cfg None\<lparr>known_extensions := [''tar.gz'']\<rparr>) ''a.tar.gz''
   \<and> verify_names (ex_cfg None) ex_signed_env (ex_keychain [] (ex_verified True None None))
        Map.empty ''dist/proj'' [''README''] Map.empty = Inr Map.empty"
proof -
  have d: "CHR ''.'' \<notin> set ''README''" "CHR ''.'' \<in> set ''tar.gz''"
    by simp_all
  have n: "[] \<notin> set (known_extensions (ex_cfg None))"
    by (simp add: ex_cfg_def)
  have g: "after_last CHR ''.'' ''a.tar.gz'' = ''gz''"
    by (simp add: after_last_def)
  note r = selection_by_extension [of "ex_cfg None" "''README''" ex_signed_env
      "ex_keychain [] (ex_verified True None None)" Map.empty "''dist/proj''" "[]" Map.empty]
  note a = selection_by_extension [of "ex_cfg None" "''a.tar.gz''"]
  note t = selection_by_extension [of "ex_cfg None\<lparr>known_extensions := [''tar.gz'']\<rparr>" "''a.tar.gz''"]
  have 1: "extension ''README'' = []" "\<not> selected (ex_cfg None) ''README''"
    using r d n by simp_all
  have 2: "verify_names (ex_cfg None) ex_signed_env (ex_keychain [] (ex_verified True None None))
        Map.empty ''dist/proj'' [''README''] Map.empty = Inr Map.empty"
    using r 1 by simp
  have 3: "selected (ex_cfg None) ''a.tar.gz''"
    using a g by (simp add: ex_cfg_def)
  have 4: "extension ''a.tar.gz'' \<noteq> ''tar.gz''"
    using a d by blast
  have 5: "\<not> selected (ex_cfg None\<lparr>known_extensions := [''tar.gz'']\<rparr>) ''a.tar.gz''"
    using t g by simp
  have 6: "extension ''a.tar.gz'' = ''gz''"
    by (simp add: extension_def)
  show ?thesis
    using d 1 2 3 4 5 6 by simp
qed

subsection \<open>Keys with a zero or absent expiry\<close>







subsection \<open>The checksum policy\<close>

text \<open>
  Claim C1 does not hold of the code: of the weak methods only the last one of the list
  is looked at. With the weak list md5, sha1, an artifact older than the deadline whose
  only sidecar is a matching \<^verbatim>\<open>.md5\<close> has no valid strong checksum, its md5 sidecar
  verifies without error, and still the pass reports that no valid checksum file was
  found; the same artifact with a matching \<^verbatim>\<open>.sha1\<close> instead ends without error.
\<close>

theorem weak_fallback_reads_last_method_only:
  "weak_checksums (ex_cfg (Some 1000)) = [''md5'', ''sha1'']
   \<and> path_exists (ex_legacy_env ''md5'' 500) (''dist/proj/a.zip'' @ ''.'' @ ''md5'')
   \<and> verify_checksum (ex_legacy_env ''md5'' 500) ''dist/proj/a.zip'' ''md5'' = Inr []
   \<and> stat_mtime (ex_legacy_env ''md5'' 500) ''dist/proj/a.zip'' = Some 500
   \<and> 500 \<le> deadline (ex_cfg (Some 1000))
   \<and> check_strong (ex_legacy_env ''md5'' 500) ''dist/proj/a.zip''
        (strong_checksums (ex_cfg (Some 1000))) Map.empty 0 = Inr (Map.empty, 0)
   \<and> verify_files (ex_cfg (Some 1000)) (ex_legacy_env ''md5'' 500)
        (ex_keychain [] (ex_verified True None None)) ''proj'' =
       Inr [''dist/proj/a.zip'' \<mapsto>
              [''No valid checksum files (.md5, .sha1, .sha256, .sha512) found for a.zip'']]
   \<and> verify_files (ex_cfg (Some 1000)) (ex_legacy_env ''sha1'' 500)
        (ex_keychain [] (ex_verified True None None)) ''proj'' = Inr Map.empty"
proof -
  have k: "checksum_on_disk ''0a1b2c  a.zip'' = ''0a1b2c''"
    by (simp add: checksum_on_disk_def strip_def is_space_def all_hex_def hexdigits_def
        lower_def lower_char_def)
  have v: "verify_checksum (ex_legacy_env m 500) ''dist/proj/a.zip'' m = Inr []"
    if "m = ''md5'' \<or> m = ''sha1''" for m
    using that k
    by (auto simp: verify_checksum_def digest_def ex_legacy_env_def ex_env_def ex_hexdigest_def)
  have s: "check_strong (ex_legacy_env ''md5'' 500) ''dist/proj/a.zip''
        (strong_checksums (ex_cfg (Some 1000))) Map.empty 0 = Inr (Map.empty, 0)"
    by (simp add: ex_cfg_def ex_legacy_env_def ex_env_def)
  have f1: "verify_files (ex_cfg (Some 1000)) (ex_legacy_env ''md5'' 500)
        (ex_keychain [] (ex_verified True None None)) ''proj'' =
       Inr [''dist/proj/a.zip'' \<mapsto>
              [''No valid checksum files (.md5, .sha1, .sha256, .sha512) found for a.zip'']]"
    by (simp add: verify_files_def ex_cfg_def ex_legacy_env_def ex_env_def ex_keychain_def
        path_join_def basename_def selected_def extension_def verify_artifact_def
        check_checksums_def check_weak_def check_signature_def last_method_def deadline_def
        push_error_def no_checksum_msg_def)
  have c2: "check_checksums (ex_cfg (Some 1000)) (ex_legacy_env ''sha1'' 500)
              ''dist/proj/a.zip'' ''a.zip'' Map.empty = Inr (Map.empty, 1)"
    using v [of "''sha1''"]
    by (simp add: check_checksums_def check_weak_def last_method_def deadline_def ex_cfg_def
        ex_legacy_env_def ex_env_def)
  have f2: "verify_files (ex_cfg (Some 1000)) (ex_legacy_env ''sha1'' 500)
        (ex_keychain [] (ex_verified True None None)) ''proj'' = Inr Map.empty"
    using c2
    by (simp add: verify_files_def verify_artifact_def check_signature_def selected_def
        extension_def path_join_def basename_def ex_cfg_def ex_legacy_env_def ex_env_def)
  show ?thesis
    using v [of "''md5''"] s f1 f2
    by (simp add: ex_cfg_def deadline_def) (simp add: ex_legacy_env_def ex_env_def)
qed

text \<open>
  Claim C3 fails as stated: an absent deadline is the number 0, and the fallback test
  compares the modification time with it. An artifact whose modification time is 0 and
  whose only sidecar is a matching \<^verbatim>\<open>.sha1\<close> has no valid strong checksum, takes the weak
  fallback under an absent deadline, and ends the pass without any error.
\<close>

theorem absent_deadline_fallback_at_epoch:
  "strong_checksum_deadline (ex_cfg None) = None
   \<and> stat_mtime (ex_legacy_env ''sha1'' 0) ''dist/proj/a.zip'' = Some 0
   \<and> check_strong (ex_legacy_env ''sha1'' 0) ''dist/proj/a.zip''
        (strong_checksums (ex_cfg None)) Map.empty 0 = Inr (Map.empty, 0)
   \<and> verify_files (ex_cfg None) (ex_legacy_env ''sha1'' 0)
        (ex_keychain [] (ex_verified True None None)) ''proj'' = Inr Map.empty"
proof -
  have k: "checksum_on_disk ''0a1b2c  a.zip'' = ''0a1b2c''"
    by (simp add: checksum_on_disk_def strip_def is_space_def all_hex_def hexdigits_def
        lower_def lower_char_def)
  have v: "verify_checksum (ex_legacy_env ''sha1'' 0) ''dist/proj/a.zip'' ''sha1'' = Inr []"
    using k
    by (simp add: verify_checksum_def digest_def ex_legacy_env_def ex_env_def ex_hexdigest_def)
  have s: "check_strong (ex_legacy_env ''sha1'' 0) ''dist/proj/a.zip''
        (strong_checksums (ex_cfg None)) Map.empty 0 = Inr (Map.empty, 0)"
    by (simp add: ex_cfg_def ex_legacy_env_def ex_env_def)
  have c: "check_checksums (ex_cfg None) (ex_legacy_env ''sha1'' 0)
              ''dist/proj/a.zip'' ''a.zip'' Map.empty = Inr (Map.empty, 1)"
    using v
    by (simp add: check_checksums_def check_weak_def last_method_def deadline_def ex_cfg_def
        ex_legacy_env_def ex_env_def)
  have f: "verify_files (ex_cfg None) (ex_legacy_env ''sha1'' 0)
        (ex_keychain [] (ex_verified True None None)) ''proj'' = Inr Map.empty"
    using c
    by (simp add: verify_files_def verify_artifact_def check_signature_def selected_def
        extension_def path_join_def basename_def ex_cfg_def ex_legacy_env_def ex_env_def)
  show ?thesis
    using s f by (simp add: ex_cfg_def) (simp add: ex_legacy_env_def ex_env_def)
qed

text \<open>
  Claim C3 as amended. When the deadline is absent or 0, every artifact that has no valid
  strong checksum and whose modification time is greater than 0 receives the error that
  no valid strong checksum file was found, as the one line the policy adds after the
  strong methods; the weak list plays no part in the result.
\<close>

theorem zero_deadline_requires_strong:
  assumes "strong_checksum_deadline c = None \<or> strong_checksum_deadline c = Some 0"
    and "check_strong e filepath (strong_checksums c) errs 0 = Inr (errs1, 0)"
    and "stat_mtime e filepath = Some mtime"
    and "0 < mtime"
  shows "check_checksums c e filepath filename errs =
           Inr (errs1(filepath \<mapsto> lines_of errs1 filepath @
                  [''No valid checksum files (.sha256, .sha512) found for '' @ filename]), 0)
       \<and> check_checksums (c\<lparr>weak_checksums := w\<rparr>) e filepath filename errs =
           check_checksums c e filepath filename errs"
  using assms
  by (auto simp: check_checksums_def check_weak_def deadline_def push_error_Msg
      no_strong_msg_def)

theorem zero_deadline_requires_strong_witness:
  "(strong_checksum_deadline (ex_cfg None) = None \<or> strong_checksum_deadline (ex_cfg None) = Some 0)
   \<and> check_strong (ex_legacy_env ''sha1'' 500) ''dist/proj/a.zip''
        (strong_checksums (ex_cfg None)) Map.empty 0 = Inr (Map.empty, 0)
   \<and> stat_mtime (ex_legacy_env ''sha1'' 500) ''dist/proj/a.zip'' = Some 500
   \<and> (0 :: real) < 500
   \<and> check_checksums (ex_cfg None) (ex_legacy_env ''sha1'' 500) ''dist/proj/a.zip'' ''a.zip''
        Map.empty =
       Inr ([''dist/proj/a.zip'' \<mapsto>
               [''No valid checksum files (.sha256, .sha512) found for a.zip'']], 0)"
proof -
  have d: "strong_checksum_deadline (ex_cfg None) = None
           \<or> strong_checksum_deadline (ex_cfg None) = Some 0"
    by (simp add: ex_cfg_def)
  have s: "check_strong (ex_legacy_env ''sha1'' 500) ''dist/proj/a.zip''
        (strong_checksums (ex_cfg None)) Map.empty 0 = Inr (Map.empty, 0)"
    by (simp add: ex_cfg_def ex_legacy_env_def ex_env_def)
  have m: "stat_mtime (ex_legacy_env ''sha1'' 500) ''dist/proj/a.zip'' = Some 500"
    by (simp add: ex_legacy_env_def ex_env_def)
  have p: "(0 :: real) < 500" by simp
  show ?thesis
    using d s m zero_deadline_requires_strong [OF d s m p, of "''a.zip''"]
    by (simp add: lines_of_def)
qed

subsection \<open>No selected artifact is passed over\<close>





















subsection \<open>The expected digest of a sidecar\<close>

text \<open>
  Splitting on whitespace, and how it relates to splitting at the space character and
  stripping the pieces, which is what the code does.
\<close>

lemma split_ws_spaces: "\<forall>c\<in>set ws. is_space c \<Longrightarrow> split_ws ws = []"
  by (induction ws) auto

lemma split_ws_not_Nil: "s \<noteq> [] \<Longrightarrow> \<not> is_space (hd s) \<Longrightarrow> split_ws s \<noteq> []"
  by (cases s) auto

lemma split_ws_dropWhile: "split_ws (dropWhile is_space s) = split_ws s"
  by (induction s) auto

lemma split_ws_append_spaces:
  "\<forall>c\<in>set ws. is_space c \<Longrightarrow> split_ws (a @ ws) = split_ws a"
proof (induction a)
  case Nil
  then show ?case by (simp add: split_ws_spaces)
next
  case (Cons c a)
  show ?case
  proof (cases "a = []")
    case True
    with Cons.prems show ?thesis
      by (cases ws) (auto simp: split_ws_spaces)
  next
    case False
    with Cons show ?thesis by simp
  qed
qed

lemma split_ws_strip: "split_ws (strip s) = split_ws s"
proof -
  let ?t = "dropWhile is_space s"
  have "rev ?t = takeWhile is_space (rev ?t) @ dropWhile is_space (rev ?t)"
    by simp
  then have "?t = strip s @ rev (takeWhile is_space (rev ?t))"
    by (metis strip_def rev_append rev_rev_ident)
  moreover have "\<forall>c\<in>set (rev (takeWhile is_space (rev ?t))). is_space c"
    by (auto dest: set_takeWhileD)
  ultimately have "split_ws ?t = split_ws (strip s)"
    by (metis split_ws_append_spaces)
  then show ?thesis by (simp add: split_ws_dropWhile)
qed

lemma split_ws_append_space:
  "is_space sp \<Longrightarrow> split_ws (a @ sp # b) = split_ws a @ split_ws b"
proof (induction a)
  case Nil
  then show ?case by simp
next
  case (Cons c a)
  show ?case
  proof (cases "a = []")
    case True
    with Cons.prems show ?thesis by simp
  next
    case False
    then have h: "hd (a @ sp # b) = hd a" by simp
    show ?thesis
    proof (cases "is_space c \<or> is_space (hd a)")
      case True
      with Cons False h show ?thesis by auto
    next
      case False
      with \<open>a \<noteq> []\<close> have "split_ws a \<noteq> []" by (simp add: split_ws_not_Nil)
      with Cons False \<open>a \<noteq> []\<close> h show ?thesis by simp
    qed
  qed
qed

lemma split_ws_token: "\<forall>c\<in>set w. \<not> is_space c \<Longrightarrow> split_ws w = (if w = [] then [] else [w])"
proof (induction w)
  case Nil
  then show ?case by simp
next
  case (Cons c w)
  then show ?case by (cases w) auto
qed

lemma split_ws_piece:
  assumes "\<forall>c\<in>set (strip p). \<not> is_space c"
  shows "split_ws p = (if strip p = [] then [] else [strip p])"
  using split_ws_token [OF assms] by (simp add: split_ws_strip)

lemma split_on_append:
  "sep \<notin> set a \<Longrightarrow> split_on sep (a @ sep # b) = a # split_on sep b"
  by (induction a) auto

lemma split_ws_split_on:
  "split_ws s = concat (map split_ws (split_on CHR '' '' s))"
proof (induction s rule: length_induct)
  case (1 s)
  show ?case
  proof (cases "CHR '' '' \<in> set s")
    case False
    then show ?thesis by (simp add: split_on_no_sep)
  next
    case True
    then obtain a b where ab: "s = a @ CHR '' '' # b" "CHR '' '' \<notin> set a"
      by (meson split_list_first)
    then have "length b < length s" by simp
    with 1 have "split_ws b = concat (map split_ws (split_on CHR '' '' b))" by blast
    moreover have "is_space CHR '' ''" by (simp add: is_space_def)
    ultimately show ?thesis
      using ab by (simp add: split_on_append split_ws_append_space)
  qed
qed

lemma all_hex_Nil: "all_hex []"
  by (simp add: all_hex_def)

lemma pieces_agree:
  assumes "\<forall>p\<in>set ps. \<forall>c\<in>set (strip p). \<not> is_space c"
  shows "concat (filter all_hex (concat (map split_ws ps))) =
         concat (map strip (filter (\<lambda>x. all_hex (strip x)) ps))"
  using assms
proof (induction ps)
  case Nil
  then show ?case by simp
next
  case (Cons p ps)
  then have "split_ws p = (if strip p = [] then [] else [strip p])"
    by (simp add: split_ws_piece)
  with Cons show ?case by (simp add: all_hex_Nil)
qed

lemma checksum_on_disk_spec:
  assumes "space_separated txt"
  shows "checksum_on_disk txt = spec_expected_digest txt"
proof -
  have "split_ws txt = concat (map split_ws (split_on CHR '' '' (strip txt)))"
    using split_ws_split_on [of "strip txt"] by (simp add: split_ws_strip)
  moreover have "\<forall>p\<in>set (split_on CHR '' '' (strip txt)). \<forall>c\<in>set (strip p). \<not> is_space c"
    using assms by (simp add: space_separated_def list_all_iff)
  ultimately show ?thesis
    by (simp add: checksum_on_disk_def spec_expected_digest_def pieces_agree)
qed

lemma lower_char_idem: "lower_char (lower_char c) = lower_char c"
  by (auto simp: lower_char_def Let_def)

lemma lower_idem: "lower (lower s) = lower s"
  by (simp add: lower_def lower_char_idem)

lemma ex_tokens:
  "split_ws ''0A1B2C'' = [''0A1B2C'']" "split_ws ''a.zip'' = [''a.zip'']"
  by (subst split_ws_token, simp_all add: is_space_def)+

lemma ex_tokens_hex: "lower (concat (filter all_hex [''0A1B2C'', ''a.zip''])) = ''0a1b2c''"
  by code_simp

text \<open>
  Claim C4 fails as stated: the code splits the sidecar at the space character only. A
  sidecar holding the right digest, a tab and the file name is one piece for the code,
  which is not hexadecimal; the expected digest is then empty, although splitting on
  whitespace gives the digest, and the verifier returns the mismatch report.
\<close>

theorem tab_separated_sidecar_rejected:
  "file_text (ex_sidecar_env [CHR 0x09]) (''dist/proj/a.zip'' @ ''.'' @ ''sha256'')
     = Some (''0A1B2C'' @ [CHR 0x09] @ ''a.zip'')
   \<and> spec_expected_digest (''0A1B2C'' @ [CHR 0x09] @ ''a.zip'') = ''0a1b2c''
   \<and> digest (ex_sidecar_env [CHR 0x09]) ''dist/proj/a.zip'' ''sha256'' = Inr ''0a1b2c''
   \<and> checksum_on_disk (''0A1B2C'' @ [CHR 0x09] @ ''a.zip'') = []
   \<and> verify_checksum (ex_sidecar_env [CHR 0x09]) ''dist/proj/a.zip'' ''sha256'' =
       Inr [''Checksum does not match checksum file a.zip.sha256!'',
            ''Calculated sha256 checksum of a.zip was: 0a1b2c'',
            ''Checksum file a.zip.sha256 said it should have been: '']"
proof -
  have "split_ws (''0A1B2C'' @ CHR 0x09 # ''a.zip'') = split_ws ''0A1B2C'' @ split_ws ''a.zip''"
    by (rule split_ws_append_space) (simp add: is_space_def)
  then have "split_ws (''0A1B2C'' @ [CHR 0x09] @ ''a.zip'') = [''0A1B2C'', ''a.zip'']"
    by (simp only: ex_tokens append_Cons append_Nil)
  then have s: "spec_expected_digest (''0A1B2C'' @ [CHR 0x09] @ ''a.zip'') = ''0a1b2c''"
    by (simp only: spec_expected_digest_def ex_tokens_hex)
  have k: "checksum_on_disk (''0A1B2C'' @ [CHR 0x09] @ ''a.zip'') = []"
    by (simp add: checksum_on_disk_def strip_def is_space_def all_hex_def hexdigits_def
        lower_def)
  have d: "digest (ex_sidecar_env [CHR 0x09]) ''dist/proj/a.zip'' ''sha256'' = Inr ''0a1b2c''"
    by (simp add: digest_def ex_sidecar_env_def ex_env_def ex_hexdigest_def)
  have t: "file_text (ex_sidecar_env [CHR 0x09]) (''dist/proj/a.zip'' @ ''.'' @ ''sha256'')
     = Some (''0A1B2C'' @ [CHR 0x09] @ ''a.zip'')"
    by (simp add: ex_sidecar_env_def ex_env_def)
  have v: "verify_checksum (ex_sidecar_env [CHR 0x09]) ''dist/proj/a.zip'' ''sha256'' =
       Inr [''Checksum does not match checksum file a.zip.sha256!'',
            ''Calculated sha256 checksum of a.zip was: 0a1b2c'',
            ''Checksum file a.zip.sha256 said it should have been: '']"
    using t d k by (simp add: verify_checksum_def basename_def)
  show ?thesis
    using t s d k v by simp
qed

text \<open>
  Claim C4 as amended. For a sidecar that is read and in whose text any two neighbouring
  tokens have a space character somewhere between them (whitespace of any kind may lead
  and trail), the expected digest of the code is the one the specification describes:
  the text split on whitespace, the tokens that are all hexadecimal kept, joined and
  lower-cased, a file name token being dropped. When the computed digest, lower-case as
  \<^verbatim>\<open>hexdigest\<close> returns it, equals this expected digest up to case, \<^verbatim>\<open>verify_checksum\<close>
  returns no errors.
\<close>

theorem verify_checksum_accepts_matching_digest:
  assumes "file_text e (filepath @ ''.'' @ method) = Some txt"
    and "space_separated txt"
    and "digest e filepath method = Inr calculated"
    and "lower calculated = calculated"
    and "lower calculated = lower (spec_expected_digest txt)"
  shows "checksum_on_disk txt = spec_expected_digest txt
       \<and> verify_checksum e filepath method = Inr []"
proof -
  have k: "checksum_on_disk txt = spec_expected_digest txt"
    using assms(2) by (rule checksum_on_disk_spec)
  have "lower (spec_expected_digest txt) = spec_expected_digest txt"
    by (simp add: spec_expected_digest_def lower_idem)
  with assms(4,5) have "spec_expected_digest txt = calculated" by simp
  with k assms(1,3) show ?thesis
    by (simp add: verify_checksum_def Let_def)
qed

theorem verify_checksum_accepts_matching_digest_witness:
  "file_text (ex_sidecar_env ''  '') (''dist/proj/a.zip'' @ ''.'' @ ''sha256'')
     = Some (''0A1B2C'' @ ''  '' @ ''a.zip'')
   \<and> space_separated (''0A1B2C'' @ ''  '' @ ''a.zip'')
   \<and> digest (ex_sidecar_env ''  '') ''dist/proj/a.zip'' ''sha256'' = Inr ''0a1b2c''
   \<and> lower ''0a1b2c'' = ''0a1b2c''
   \<and> spec_expected_digest (''0A1B2C'' @ ''  '' @ ''a.zip'') = ''0a1b2c''
   \<and> checksum_on_disk (''0A1B2C'' @ ''  '' @ ''a.zip'') = ''0a1b2c''
   \<and> verify_checksum (ex_sidecar_env ''  '') ''dist/proj/a.zip'' ''sha256'' = Inr []"
proof -
  have t: "file_text (ex_sidecar_env ''  '') (''dist/proj/a.zip'' @ ''.'' @ ''sha256'')
     = Some (''0A1B2C'' @ ''  '' @ ''a.zip'')"
    by (simp add: ex_sidecar_env_def ex_env_def)
  have p: "space_separated (''0A1B2C'' @ ''  '' @ ''a.zip'')"
    by (simp add: space_separated_def strip_def is_space_def)
  have d: "digest (ex_sidecar_env ''  '') ''dist/proj/a.zip'' ''sha256'' = Inr ''0a1b2c''"
    by (simp add: digest_def ex_sidecar_env_def ex_env_def ex_hexdigest_def)
  have l: "lower ''0a1b2c'' = ''0a1b2c''"
    by (simp add: lower_def lower_char_def)
  have "split_ws (''0A1B2C'' @ CHR '' '' # CHR '' '' # ''a.zip'') =
          split_ws ''0A1B2C'' @ split_ws (CHR '' '' # ''a.zip'')"
    by (rule split_ws_append_space) (simp add: is_space_def)
  moreover have "split_ws (CHR '' '' # ''a.zip'') = split_ws ''a.zip''"
    by (simp only: split_ws.simps) (simp add: is_space_def)
  ultimately have "split_ws (''0A1B2C'' @ ''  '' @ ''a.zip'') = [''0A1B2C'', ''a.zip'']"
    by (simp only: ex_tokens append_Cons append_Nil)
  then have s: "spec_expected_digest (''0A1B2C'' @ ''  '' @ ''a.zip'') = ''0a1b2c''"
    by (simp only: spec_expected_digest_def ex_tokens_hex)
  have q: "lower ''0a1b2c'' = lower (spec_expected_digest (''0A1B2C'' @ ''  '' @ ''a.zip''))"
    by (simp only: s)
  show ?thesis
    using t p d l s verify_checksum_accepts_matching_digest [OF t p d l q] by simp
qed

subsection \<open>The keychain of a pass\<close>

lemma import_names_blocks:
  "import_names e root_dir fns ring = Inr ring' \<Longrightarrow>
     \<exists>blocks. map Some blocks =
                map (file_bytes e)
                  (map (path_join root_dir)
                     (filter (\<lambda>filename. filename \<in> set [''KEYS'', ''KEYS.txt'']) fns))
              \<and> ring' = ring @ blocks"
proof (induction fns arbitrary: ring)
  case Nil
  then show ?case by simp
next
  case (Cons fn fns)
  show ?case
  proof (cases "fn \<in> set [''KEYS'', ''KEYS.txt'']")
    case False
    with Cons.prems have "import_names e root_dir fns ring = Inr ring'"
      by (simp add: Let_def)
    from Cons.IH [OF this] False show ?thesis by simp
  next
    case True
    with Cons.prems obtain block where
      b: "file_bytes e (path_join root_dir fn) = Some block"
      and r: "import_names e root_dir fns (ring @ [block]) = Inr ring'"
      by (auto simp: Let_def split: option.splits)
    from Cons.IH [OF r] obtain blocks where
      "map Some blocks =
         map (file_bytes e)
           (map (path_join root_dir)
              (filter (\<lambda>filename. filename \<in> set [''KEYS'', ''KEYS.txt'']) fns))"
      and "ring' = (ring @ [block]) @ blocks"
      by blast
    with True b have
      "map Some (block # blocks) =
         map (file_bytes e)
           (map (path_join root_dir)
              (filter (\<lambda>filename. filename \<in> set [''KEYS'', ''KEYS.txt'']) (fn # fns)))
       \<and> ring' = ring @ (block # blocks)"
      by simp
    then show ?thesis by blast
  qed
qed

lemma import_walk_blocks:
  "import_walk e entries ring = Inr ring' \<Longrightarrow>
     \<exists>blocks. map Some blocks = map (file_bytes e) (keys_paths entries)
              \<and> ring' = ring @ blocks"
proof (induction entries arbitrary: ring)
  case Nil
  then show ?case by (simp add: keys_paths_def)
next
  case (Cons entry entries)
  obtain root_dir dirs files where en: "entry = (root_dir, dirs, files)"
    by (cases entry) auto
  with Cons.prems obtain ring1 where
    n: "import_names e root_dir files ring = Inr ring1"
    and r: "import_walk e entries ring1 = Inr ring'"
    by (auto split: sum.splits)
  from import_names_blocks [OF n] obtain b1 where
    b1: "map Some b1 =
           map (file_bytes e)
             (map (path_join root_dir)
                (filter (\<lambda>filename. filename \<in> set [''KEYS'', ''KEYS.txt'']) files))"
    and r1: "ring1 = ring @ b1"
    by blast
  from Cons.IH [OF r] obtain b2 where
    b2: "map Some b2 = map (file_bytes e) (keys_paths entries)"
    and r2: "ring' = ring1 @ b2"
    by blast
  from b1 b2 r1 r2 en have
    "map Some (b1 @ b2) = map (file_bytes e) (keys_paths (entry # entries))
     \<and> ring' = ring @ (b1 @ b2)"
    by (simp add: keys_paths_def)
  then show ?case by blast
qed

text \<open>
  Claim C9 fails as stated: the keychain is opened on a home directory that lasts from
  pass to pass. A first pass over a tree with a \<^verbatim>\<open>KEYS\<close> file imports its key into the
  home directory of the project; in the next pass the tree has no \<^verbatim>\<open>KEYS\<close> file any
  more, nothing is imported, and the fingerprint map of that pass still holds the key.
\<close>

theorem keys_of_earlier_pass_persist:
  "scan_project (ex_cfg None) ex_keys_env ex_gnupg Map.empty ''proj'' =
     Inr ([''gpg/proj'' \<mapsto> [''AB12'']],
          [''dist/proj/a.zip'' \<mapsto> [no_strong_msg ''a.zip'']])
   \<and> load_keys (ex_cfg None) ex_keys_env ex_gnupg Map.empty ''proj'' =
     Inr ([''gpg/proj'' \<mapsto> [''AB12'']], keychain_of ex_gnupg [''AB12''])
   \<and> keys_paths (walk ex_no_keys_env (path_join (dist_dir (ex_cfg None)) ''proj'')) = []
   \<and> load_keys (ex_cfg None) ex_no_keys_env ex_gnupg [''gpg/proj'' \<mapsto> [''AB12'']] ''proj'' =
     Inr ([''gpg/proj'' \<mapsto> [''AB12'']], keychain_of ex_gnupg [''AB12''])
   \<and> known_fingerprints (keychain_of ex_gnupg [''AB12'']) ''AB12'' =
     Some \<lparr>key_fingerprint = ''AB12'', key_expires = None, key_uids = [''AB12'']\<rparr>"
proof -
  have l: "load_keys (ex_cfg None) ex_keys_env ex_gnupg Map.empty ''proj'' =
     Inr ([''gpg/proj'' \<mapsto> [''AB12'']], keychain_of ex_gnupg [''AB12''])"
    by (simp add: load_keys_def ex_cfg_def ex_keys_env_def ex_env_def path_join_def
        basename_def)
  have v: "verify_files (ex_cfg None) ex_keys_env (keychain_of ex_gnupg [''AB12'']) ''proj'' =
     Inr [''dist/proj/a.zip'' \<mapsto> [no_strong_msg ''a.zip'']]"
    by (simp add: verify_files_def ex_cfg_def ex_keys_env_def ex_env_def path_join_def
        basename_def selected_def extension_def verify_artifact_def check_checksums_def
        check_weak_def check_signature_def deadline_def push_error_def)
  have s: "scan_project (ex_cfg None) ex_keys_env ex_gnupg Map.empty ''proj'' =
     Inr ([''gpg/proj'' \<mapsto> [''AB12'']],
          [''dist/proj/a.zip'' \<mapsto> [no_strong_msg ''a.zip'']])"
    by (simp add: scan_project_def l v)
  have r: "keys_paths (walk ex_no_keys_env (path_join (dist_dir (ex_cfg None)) ''proj'')) = []
   \<and> load_keys (ex_cfg None) ex_no_keys_env ex_gnupg [''gpg/proj'' \<mapsto> [''AB12'']] ''proj'' =
     Inr ([''gpg/proj'' \<mapsto> [''AB12'']], keychain_of ex_gnupg [''AB12''])
   \<and> known_fingerprints (keychain_of ex_gnupg [''AB12'']) ''AB12'' =
     Some \<lparr>key_fingerprint = ''AB12'', key_expires = None, key_uids = [''AB12'']\<rparr>"
    by (simp add: load_keys_def ex_cfg_def ex_no_keys_env_def ex_env_def
        path_join_def basename_def keys_paths_def known_fingerprints_def keychain_of_def
        ex_gnupg_def)
  show ?thesis
    using s l r by simp
qed

text \<open>
  Claim C9 as amended. The keychain of a project in a pass is opened on the GPG home
  directory of the project, which is created empty only when it does not exist and is
  otherwise taken as earlier passes left it. The pass imports into it the files named
  \<^verbatim>\<open>KEYS\<close> or \<^verbatim>\<open>KEYS.txt\<close> that are under the project's tree at that time, in walk
  order, and the keychain and its fingerprint map are read from the earlier content of
  the home directory followed by these imports. No other home directory changes.
\<close>

theorem load_keys_adds_to_home:
  assumes "load_keys c e g homes project = Inr (homes', keychain)"
  shows "\<exists>blocks.
           map Some blocks =
             map (file_bytes e) (keys_paths (walk e (path_join (dist_dir c) project)))
           \<and> homes' = homes(path_join (gpg_homedir c) project \<mapsto>
                 (case homes (path_join (gpg_homedir c) project) of
                    None \<Rightarrow> [] | Some ring \<Rightarrow> ring) @ blocks)
           \<and> keychain = keychain_of g
                 ((case homes (path_join (gpg_homedir c) project) of
                     None \<Rightarrow> [] | Some ring \<Rightarrow> ring) @ blocks)"
proof -
  let ?dir = "path_join (gpg_homedir c) project"
  let ?old = "case homes ?dir of None \<Rightarrow> [] | Some ring \<Rightarrow> ring"
  from assms obtain ring1 where
    w: "import_walk e (walk e (path_join (dist_dir c) project)) ?old = Inr ring1"
    and h: "homes' = homes(?dir \<mapsto> ring1)"
    and k: "keychain = keychain_of g ring1"
    by (auto simp: load_keys_def Let_def split: if_splits sum.splits option.splits)
  from import_walk_blocks [OF w] h k show ?thesis by blast
qed

theorem load_keys_adds_to_home_witness:
  "load_keys (ex_cfg None) ex_keys_env ex_gnupg [''gpg/proj'' \<mapsto> [''CD34'']] ''proj'' =
     Inr ([''gpg/proj'' \<mapsto> [''CD34'', ''AB12'']], keychain_of ex_gnupg [''CD34'', ''AB12''])
   \<and> keys_paths (walk ex_keys_env (path_join (dist_dir (ex_cfg None)) ''proj'')) =
       [''dist/proj/KEYS'']
   \<and> (\<exists>blocks.
         map Some blocks =
           map (file_bytes ex_keys_env)
             (keys_paths (walk ex_keys_env (path_join (dist_dir (ex_cfg None)) ''proj'')))
         \<and> [''gpg/proj'' \<mapsto> [''CD34'', ''AB12'']] =
             [''gpg/proj'' \<mapsto> [''CD34'']](path_join (gpg_homedir (ex_cfg None)) ''proj'' \<mapsto>
               (case [''gpg/proj'' \<mapsto> [''CD34'']] (path_join (gpg_homedir (ex_cfg None)) ''proj'') of
                  None \<Rightarrow> [] | Some ring \<Rightarrow> ring) @ blocks)
         \<and> keychain_of ex_gnupg [''CD34'', ''AB12''] = keychain_of ex_gnupg
               ((case [''gpg/proj'' \<mapsto> [''CD34'']] (path_join (gpg_homedir (ex_cfg None)) ''proj'') of
                   None \<Rightarrow> [] | Some ring \<Rightarrow> ring) @ blocks))"
proof -
  have l: "load_keys (ex_cfg None) ex_keys_env ex_gnupg [''gpg/proj'' \<mapsto> [''CD34'']] ''proj'' =
     Inr ([''gpg/proj'' \<mapsto> [''CD34'', ''AB12'']], keychain_of ex_gnupg [''CD34'', ''AB12''])"
    by (simp add: load_keys_def ex_cfg_def ex_keys_env_def ex_env_def path_join_def
        basename_def)
  have p: "keys_paths (walk ex_keys_env (path_join (dist_dir (ex_cfg None)) ''proj'')) =
       [''dist/proj/KEYS'']"
    by (simp add: keys_paths_def ex_cfg_def ex_keys_env_def ex_env_def path_join_def
        basename_def)
  show ?thesis
    using l p load_keys_adds_to_home [OF l] by simp
qed


end
